theory Spec2Isabelle
  imports Complex_Main "HOL-Library.Sublist"
begin

section \<open>The authentication client of golrackpi\<close>

text \<open>
  A shallow embedding of the package \<^verbatim>\<open>golrackpi\<close> (the third file of
  \<^verbatim>\<open>src/cmd/cli/processdata.go\<close>, lines 573 to 975): the client record
  \<^verbatim>\<open>AuthClient\<close>, its constructors and setters, \<^verbatim>\<open>Login\<close> and \<^verbatim>\<open>Logout\<close>.

  A Go \<^verbatim>\<open>string\<close> is a sequence of bytes and so is a \<^verbatim>\<open>[]byte\<close>; both are
  modelled by \<^typ>\<open>string\<close>, whose characters are bytes, and the conversions
  \<^verbatim>\<open>[]byte(s)\<close> and \<^verbatim>\<open>string(b)\<close> are the identity.
\<close>

type_synonym bytes = string

subsection \<open>The client record, constructors and setters\<close>

text \<open>\<^verbatim>\<open>type AuthClient struct\<close>, lines 622 to 627.\<close>

record AuthClient =
  Scheme :: string
  Server :: string
  Password :: string
  SessionId :: string

text \<open>\<^verbatim>\<open>func New\<close>, lines 630 to 638.\<close>

definition New :: AuthClient where
  "New = \<lparr>Scheme = ''http'', Server = '''', Password = '''', SessionId = ''''\<rparr>"

text \<open>
  \<^verbatim>\<open>func NewWithParameter\<close>, lines 642 to 654. The composite literal names three
  fields; the fourth, \<^verbatim>\<open>SessionId\<close>, takes the zero value of its type, the empty string.
\<close>

definition NewWithParameter :: "AuthClient \<Rightarrow> AuthClient" where
  "NewWithParameter param =
     (let param = (if Scheme param = ''https''
                   then param\<lparr>Scheme := ''https''\<rparr>
                   else param\<lparr>Scheme := ''http''\<rparr>)
      in \<lparr>Scheme = Scheme param, Server = Server param, Password = Password param,
          SessionId = ''''\<rparr>)"

text \<open>\<^verbatim>\<open>SetServer\<close>, \<^verbatim>\<open>SetPassword\<close>, \<^verbatim>\<open>SetScheme\<close>, lines 657 to 674.\<close>

definition SetServer :: "AuthClient \<Rightarrow> string \<Rightarrow> AuthClient" where
  "SetServer c server = c\<lparr>Server := server\<rparr>"

definition SetPassword :: "AuthClient \<Rightarrow> string \<Rightarrow> AuthClient" where
  "SetPassword c password = c\<lparr>Password := password\<rparr>"

definition SetScheme :: "AuthClient \<Rightarrow> string \<Rightarrow> AuthClient" where
  "SetScheme c scheme =
     (let scheme = (if scheme = ''https'' then ''https'' else ''http'')
      in c\<lparr>Scheme := scheme\<rparr>)"

text \<open>\<^verbatim>\<open>getUrl\<close>, lines 677 to 679.\<close>

definition getUrl :: "AuthClient \<Rightarrow> string \<Rightarrow> string" where
  "getUrl c request = Scheme c @ ''://'' @ Server c @ request"

subsection \<open>Library functions the client calls\<close>

text \<open>
  The functions of this subsection belong to Go's standard library, not to the
  repository; each is modelled after its documentation, as far as \<^verbatim>\<open>Login\<close> and
  \<^verbatim>\<open>Logout\<close> use it.
\<close>

text \<open>
  \<^verbatim>\<open>strconv.FormatInt(i, 10)\<close>, which \<^verbatim>\<open>fmt\<close> uses for the verb \<^verbatim>\<open>%d\<close>:
  the decimal digits, most significant first, after a minus sign for a negative number.
\<close>

definition digitChar :: "nat \<Rightarrow> char" where
  "digitChar d = ''0123456789'' ! d"

function formatBits :: "nat \<Rightarrow> string" where
  "formatBits u = (if u < 10 then [digitChar u]
                   else formatBits (u div 10) @ [digitChar (u mod 10)])"
  by pat_completeness auto
termination
  by (relation "measure (\<lambda>u. u)") auto

declare formatBits.simps [simp del]

definition FormatInt :: "int \<Rightarrow> string" where
  "FormatInt i = (if i < 0 then CHR ''-'' # formatBits (nat (- i)) else formatBits (nat i))"

text \<open>
  \<^verbatim>\<open>fmt.Sprintf\<close>, for the two verbs \<^verbatim>\<open>Login\<close> uses: \<^verbatim>\<open>%s\<close> with a string
  operand prints the string as it is, \<^verbatim>\<open>%d\<close> with an integer operand prints it in
  decimal, and every other byte of the format is copied. A verb without an operand of its
  kind makes \<^verbatim>\<open>fmt\<close> print a diagnostic; the format of \<^verbatim>\<open>Login\<close> is a constant
  that has none, and the model copies such a verb unchanged.
\<close>

datatype fmt_arg = ArgString string | ArgInt int

fun Sprintf :: "string \<Rightarrow> fmt_arg list \<Rightarrow> string" where
  "Sprintf [] args = []"
| "Sprintf [c] args = [c]"
| "Sprintf (c # v # fs) args =
     (if c = CHR ''%'' \<and> v = CHR ''s'' then
        (case args of
           ArgString s # rest \<Rightarrow> s @ Sprintf fs rest
         | _ \<Rightarrow> c # Sprintf (v # fs) args)
      else if c = CHR ''%'' \<and> v = CHR ''d'' then
        (case args of
           ArgInt i # rest \<Rightarrow> FormatInt i @ Sprintf fs rest
         | _ \<Rightarrow> c # Sprintf (v # fs) args)
      else c # Sprintf (v # fs) args)"

text \<open>
  Modelled from the spec: \<^verbatim>\<open>base64_std_encode\<close>, "RFC 4648 section 4 with padding"
  (Go's \<^verbatim>\<open>base64.StdEncoding.EncodeToString\<close>, which is not part of the repository).
  Three bytes make a 24 bit group that is written as four characters of the alphabet; a
  last group of one or two bytes is padded with \<^verbatim>\<open>=\<close>.
\<close>

definition encodeStd :: string where
  "encodeStd = ''ABCDEFGHIJKLMNOPQRSTUVWXYZabcdefghijklmnopqrstuvwxyz0123456789+/''"

definition encodeChar :: "nat \<Rightarrow> char" where
  "encodeChar v = encodeStd ! (v mod 64)"

fun EncodeToString :: "bytes \<Rightarrow> string" where
  "EncodeToString (a # b # c # src) =
     (let val = of_char a * 65536 + of_char b * 256 + of_char c
      in encodeChar (val div 262144) # encodeChar (val div 4096) # encodeChar (val div 64)
         # encodeChar val # EncodeToString src)"
| "EncodeToString [a, b] =
     (let val = of_char a * 65536 + of_char b * 256
      in [encodeChar (val div 262144), encodeChar (val div 4096), encodeChar (val div 64),
          CHR ''=''])"
| "EncodeToString [a] =
     (let val = of_char a * 65536
      in [encodeChar (val div 262144), encodeChar (val div 4096), CHR ''='', CHR ''=''])"
| "EncodeToString [] = []"

text \<open>
  \<^verbatim>\<open>bytes.Compare\<close>: the lexicographic comparison of two byte slices, with result
  \<^verbatim>\<open>-1\<close>, \<^verbatim>\<open>0\<close> or \<^verbatim>\<open>+1\<close>; a nil slice compares like an empty one.
\<close>

fun bytes_Compare :: "bytes \<Rightarrow> bytes \<Rightarrow> int" where
  "bytes_Compare [] [] = 0"
| "bytes_Compare [] (y # ys) = - 1"
| "bytes_Compare (x # xs) [] = 1"
| "bytes_Compare (x # xs) (y # ys) =
     (if (of_char x :: nat) < of_char y then - 1
      else if (of_char y :: nat) < of_char x then 1
      else bytes_Compare xs ys)"

subsection \<open>Errors and JSON values\<close>

text \<open>
  A Go function that returns \<^verbatim>\<open>(value, error)\<close> is modelled by a sum: \<open>Inr\<close> the value
  returned with a nil error, \<open>Inl (Error msg)\<close> the error \<^verbatim>\<open>errors.New(msg)\<close> returned
  with the zero value, and \<open>Inl Panic\<close> a run-time panic, which returns nothing.
\<close>

datatype fault = Error string | Panic

text \<open>
  What \<^verbatim>\<open>encoding/json\<close> stores in an \<^verbatim>\<open>interface{}\<close>: nil, a bool, a
  \<^verbatim>\<open>float64\<close> for every number, a string, a slice or a map. The numbers a decoder
  yields are finite, so each is a rational number.
\<close>

datatype json =
    JNull
  | JBool bool
  | JNumber rat
  | JString string
  | JArray "json list"
  | JObject "(string \<times> json) list"

text \<open>
  The type assertions \<^verbatim>\<open>m[key].(string)\<close> and \<^verbatim>\<open>m[key].(float64)\<close> in their
  one-result form: they panic unless the value has the asserted type. Indexing a map
  with a missing key gives the nil interface value, for which every assertion panics.
\<close>

definition assertString :: "json option \<Rightarrow> fault + string" where
  "assertString v = (case v of Some (JString s) \<Rightarrow> Inr s | _ \<Rightarrow> Inl Panic)"

definition assertFloat64 :: "json option \<Rightarrow> fault + rat" where
  "assertFloat64 v = (case v of Some (JNumber x) \<Rightarrow> Inr x | _ \<Rightarrow> Inl Panic)"

subsection \<open>Requests, responses and the environment\<close>

text \<open>
  The three JSON request bodies, lines 602 to 619, as the structs that
  \<^verbatim>\<open>json.Marshal\<close> serialises.
\<close>

datatype request_body =
    AuthStartRequestType (Nonce: string) (Username: string)
  | AuthFinishRequestType (TransactionId: string) (Proof: string)
  | AuthCreateSessionType (TransactionId: string) (Iv: string) (Tag: string) (Payload: string)

text \<open>
  A response as the client reads it: the status code, and the body after
  \<^verbatim>\<open>ioutil.ReadAll\<close> and \<^verbatim>\<open>json.NewDecoder(...).Decode\<close> into a
  \<^verbatim>\<open>map[string]interface{}\<close>. \<open>ReadError\<close> is a failed read. The error of
  \<^verbatim>\<open>Decode\<close> is dropped by the code: a body that is not a JSON object leaves the map
  nil, and a nil map reads like the empty map.
\<close>

datatype body = ReadError | Decoded "string \<Rightarrow> json option"

record Response =
  StatusCode :: int
  Body :: body

record Request =
  Method :: string
  URL :: string
  Header :: "(string \<times> string) list"

text \<open>
  Everything \<^verbatim>\<open>Login\<close> and \<^verbatim>\<open>Logout\<close> take from outside the file: the package
  \<^verbatim>\<open>internal/helper\<close> (not among the sources), the cryptographic primitives of the
  standard library, the random draws and the network. \<open>None\<close> from \<open>http_Post\<close> or
  \<open>client_Do\<close> is a non-nil error of the call.
\<close>

record env =
  RandSeq :: "nat \<Rightarrow> string"
  GetPBKDF2Hash :: "string \<Rightarrow> string \<Rightarrow> int \<Rightarrow> bytes"
  GetHMACSHA256 :: "bytes \<Rightarrow> string \<Rightarrow> bytes"
  GetSHA256Hash :: "bytes \<Rightarrow> bytes"
  CreateClientProof :: "bytes \<Rightarrow> bytes \<Rightarrow> string"
  GenerateRandomBytes :: "nat \<Rightarrow> bytes"
  DecodeString :: "string \<Rightarrow> bytes"
  hmac_sha256 :: "bytes \<Rightarrow> bytes \<Rightarrow> bytes"
  gcm_Seal :: "bytes \<Rightarrow> bytes \<Rightarrow> bytes \<Rightarrow> bytes"
  int64_overflow :: "rat \<Rightarrow> int"
  http_Post :: "string \<Rightarrow> request_body \<Rightarrow> Response option"
  NewRequest_error :: "string \<Rightarrow> string \<Rightarrow> string option"
  client_Do :: "Request \<Rightarrow> Response option"

text \<open>
  The conversion \<^verbatim>\<open>int64(x)\<close> of a \<^verbatim>\<open>float64\<close>: the fraction is discarded
  (truncation towards zero). For a value outside the range of \<^verbatim>\<open>int64\<close> the
  language leaves the result to the implementation; the environment supplies it.
\<close>

definition int64_of_float64 :: "env \<Rightarrow> rat \<Rightarrow> int" where
  "int64_of_float64 e x =
     (let t = (if 0 \<le> x then \<lfloor>x\<rfloor> else \<lceil>x\<rceil>)
      in if - (2 ^ 63) \<le> t \<and> t < 2 ^ 63 then t else int64_overflow e x)"

text \<open>
  \<^verbatim>\<open>crypto/hmac\<close> with \<^verbatim>\<open>sha256.New\<close>: \<^verbatim>\<open>hmac.New\<close> fixes the key,
  \<^verbatim>\<open>Write\<close> adds bytes to the running message, and \<^verbatim>\<open>Sum(b)\<close> appends to
  \<^verbatim>\<open>b\<close> the MAC of everything written so far.
\<close>

record hmac_hash =
  hmac_key :: bytes
  hmac_written :: bytes

definition hmac_New :: "bytes \<Rightarrow> hmac_hash" where
  "hmac_New key = \<lparr>hmac_key = key, hmac_written = []\<rparr>"

definition hmac_Write :: "hmac_hash \<Rightarrow> bytes \<Rightarrow> hmac_hash" where
  "hmac_Write h p = h\<lparr>hmac_written := hmac_written h @ p\<rparr>"

definition hmac_Sum :: "env \<Rightarrow> hmac_hash \<Rightarrow> bytes \<Rightarrow> bytes" where
  "hmac_Sum e h b = b @ hmac_sha256 e (hmac_key h) (hmac_written h)"

subsection \<open>Login\<close>

text \<open>Lines 597 to 599.\<close>

definition endpointAuthStart :: string where
  "endpointAuthStart = ''/api/v1/auth/start''"

definition endpointAuthFinish :: string where
  "endpointAuthFinish = ''/api/v1/auth/finish''"

definition endpointAuthCreateSession :: string where
  "endpointAuthCreateSession = ''/api/v1/auth/create_session''"

text \<open>
  \<^verbatim>\<open>Login\<close>, lines 683 to 916, is read in four consecutive parts. Each part yields
  the POST requests it has issued, as pairs of URL and body in the order of sending, and
  either the fault that ends \<^verbatim>\<open>Login\<close> there or the local variables that the rest of
  the function reads.
\<close>

type_synonym post = "string \<times> request_body"

text \<open>
  Lines 685 to 735: the client nonce, the AuthStart request and the four fields read
  from its response. The local variables still in use after line 735:
\<close>

record start_values =
  userName :: string
  startRequest :: request_body
  serverNonce :: string
  rounds :: int
  serverSalt :: string
  transactionId :: string

definition authStart :: "env \<Rightarrow> AuthClient \<Rightarrow> post list \<times> (fault + start_values)" where
  "authStart e c =
     (let randomString = RandSeq e 12;
          base64String = EncodeToString randomString;
          user = ''user'';
          request = AuthStartRequestType base64String user;
          sent = [(getUrl c endpointAuthStart, request)]
      in case http_Post e (getUrl c endpointAuthStart) request of
           None \<Rightarrow> (sent, Inl (Error ''could not initiate authentication''))
         | Some resp \<Rightarrow>
             (case Body resp of
                ReadError \<Rightarrow> (sent, Inl (Error ''could not read authentication response''))
              | Decoded result \<Rightarrow>
                  (case assertString (result ''nonce'') of
                     Inl f \<Rightarrow> (sent, Inl f)
                   | Inr nonce \<Rightarrow>
                  (case assertFloat64 (result ''rounds'') of
                     Inl f \<Rightarrow> (sent, Inl f)
                   | Inr r \<Rightarrow>
                  (case assertString (result ''salt'') of
                     Inl f \<Rightarrow> (sent, Inl f)
                   | Inr salt \<Rightarrow>
                  (case assertString (result ''transactionId'') of
                     Inl f \<Rightarrow> (sent, Inl f)
                   | Inr tid \<Rightarrow>
                       (sent, Inr \<lparr>userName = user, startRequest = request,
                                   serverNonce = nonce, rounds = int64_of_float64 e r,
                                   serverSalt = salt, transactionId = tid\<rparr>)))))))"

text \<open>
  Lines 738 to 763: the keys, the auth message, the two signatures and the client proof.
  \<^verbatim>\<open>int(rounds)\<close> is the identity where \<^verbatim>\<open>int\<close> has 64 bits. The error of
  \<^verbatim>\<open>DecodeString\<close> is dropped.
\<close>

record key_values =
  saltedPassword :: bytes
  clientKey :: bytes
  serverKey :: bytes
  storedKey :: bytes
  authMessage :: string
  clientSignature :: bytes
  serverSignature :: bytes
  clientProof :: string

definition deriveKeys :: "env \<Rightarrow> AuthClient \<Rightarrow> start_values \<Rightarrow> key_values" where
  "deriveKeys e c sv =
     (let serverSaltDecoded = DecodeString e (serverSalt sv);
          salted = GetPBKDF2Hash e (Password c) serverSaltDecoded (rounds sv);
          ckey = GetHMACSHA256 e salted ''Client Key'';
          skey = GetHMACSHA256 e salted ''Server Key'';
          stored = GetSHA256Hash e ckey;
          msg = Sprintf ''n=%s,r=%s,r=%s,s=%s,i=%d,c=biws,r=%s''
                  [ArgString (userName sv), ArgString (Nonce (startRequest sv)),
                   ArgString (serverNonce sv), ArgString (serverSalt sv),
                   ArgInt (rounds sv), ArgString (serverNonce sv)];
          csig = GetHMACSHA256 e stored msg;
          ssig = GetHMACSHA256 e skey msg;
          cproof = CreateClientProof e csig ckey
      in \<lparr>saltedPassword = salted, clientKey = ckey, serverKey = skey, storedKey = stored,
          authMessage = msg, clientSignature = csig, serverSignature = ssig,
          clientProof = cproof\<rparr>)"

text \<open>
  Lines 767 to 808: the AuthFinish request and the two fields read from its response,
  the signature after base64 decoding and the token.
\<close>

definition authFinish ::
  "env \<Rightarrow> AuthClient \<Rightarrow> start_values \<Rightarrow> key_values \<Rightarrow> post list \<times> (fault + bytes \<times> string)" where
  "authFinish e c sv ks =
     (let finishRequest = AuthFinishRequestType (transactionId sv) (clientProof ks);
          sent = [(getUrl c endpointAuthFinish, finishRequest)]
      in case http_Post e (getUrl c endpointAuthFinish) finishRequest of
           None \<Rightarrow> (sent, Inl (Error ''could not initiate authentication finish request''))
         | Some respFinish \<Rightarrow>
             (case Body respFinish of
                ReadError \<Rightarrow>
                  (sent, Inl (Error ''could not read from authentication finish request''))
              | Decoded resultFinish \<Rightarrow>
                  (let authOkSignature = (resultFinish ''signature'' \<noteq> None);
                       authOkToken = (resultFinish ''token'' \<noteq> None)
                   in if \<not> authOkSignature \<or> \<not> authOkToken
                      then (sent, Inl (Error ''authentication failed''))
                      else
                        (case assertString (resultFinish ''signature'') of
                           Inl f \<Rightarrow> (sent, Inl f)
                         | Inr signatureStr \<Rightarrow>
                        (case assertString (resultFinish ''token'') of
                           Inl f \<Rightarrow> (sent, Inl f)
                         | Inr token \<Rightarrow>
                             (sent, Inr (DecodeString e signatureStr, token)))))))"

text \<open>Lines 825 to 831: the protocol key, written to the MAC in three calls.\<close>

definition protocolKey :: "env \<Rightarrow> key_values \<Rightarrow> bytes" where
  "protocolKey e ks =
     (let h = hmac_New (storedKey ks);
          h = hmac_Write h ''Session Key'';
          h = hmac_Write h (authMessage ks);
          h = hmac_Write h (clientKey ks)
      in hmac_Sum e h [])"

text \<open>
  Lines 815 to 912: the signature check, the sealing of the token and the CreateSession
  request. \<^verbatim>\<open>aes.NewCipher\<close> returns an error unless the key has 16, 24 or 32 bytes;
  \<^verbatim>\<open>cipher.NewGCMWithNonceSize(block, 16)\<close> has no error for an AES block and the size
  16; \<^verbatim>\<open>Seal\<close> panics when the nonce has not the 16 bytes or the plaintext has more
  than \<^verbatim>\<open>((1<<32)-2)*16\<close> bytes; the slice expressions of line 860 panic when the
  sealed text has fewer than 16 bytes. The error of \<^verbatim>\<open>GenerateRandomBytes\<close> is dropped.
\<close>

definition createSession ::
  "env \<Rightarrow> AuthClient \<Rightarrow> start_values \<Rightarrow> key_values \<Rightarrow> bytes \<Rightarrow> string
     \<Rightarrow> post list \<times> (fault + string)" where
  "createSession e c sv ks signature token =
     (let cmpBytes = bytes_Compare signature (serverSignature ks)
      in if cmpBytes \<noteq> 0 then ([], Inl (Error ''signature check error''))
         else
          (let key = protocolKey e ks;
               ivNonce = GenerateRandomBytes e 16;
               k = length key
           in if k \<noteq> 16 \<and> k \<noteq> 24 \<and> k \<noteq> 32
              then ([], Inl (Error (''cipher creation error crypto/aes: invalid key size ''
                                      @ FormatInt (int k))))
              else if length ivNonce \<noteq> 16 \<or> 68719476704 < int (length token)
              then ([], Inl Panic)
              else
               (let sealed = gcm_Seal e key ivNonce token
                in if length sealed < 16 then ([], Inl Panic)
                   else
                    (let ciphertext = take (length sealed - 16) sealed;
                         tag = drop (length sealed - 16) sealed;
                         createSessionRequest =
                           AuthCreateSessionType (transactionId sv) (EncodeToString ivNonce)
                             (EncodeToString tag) (EncodeToString ciphertext);
                         sent = [(getUrl c endpointAuthCreateSession, createSessionRequest)]
                     in case http_Post e (getUrl c endpointAuthCreateSession)
                               createSessionRequest of
                          None \<Rightarrow> (sent, Inl (Error ''could not create session''))
                        | Some respCreateSession \<Rightarrow>
                            (case Body respCreateSession of
                               ReadError \<Rightarrow>
                                 (sent, Inl (Error ''could not read from create session request''))
                             | Decoded resultCreateSession \<Rightarrow>
                                 (case resultCreateSession ''sessionId'' of
                                    None \<Rightarrow> (sent, Inl (Error ''session id not available''))
                                  | Some sessionId \<Rightarrow>
                                      (case assertString (Some sessionId) of
                                         Inl f \<Rightarrow> (sent, Inl f)
                                       | Inr s \<Rightarrow> (sent, Inr s))))))))"

text \<open>
  \<^verbatim>\<open>Login\<close>: the four parts in sequence. The result is what the function returns, the
  client after the call (\<^verbatim>\<open>c.SessionId\<close> is assigned in line 911 only) and the POST
  requests issued.
\<close>

definition Login :: "env \<Rightarrow> AuthClient \<Rightarrow> (fault + string) \<times> AuthClient \<times> post list" where
  "Login e c =
     (case authStart e c of
        (t1, Inl f) \<Rightarrow> (Inl f, c, t1)
      | (t1, Inr sv) \<Rightarrow>
          (let ks = deriveKeys e c sv
           in case authFinish e c sv ks of
                (t2, Inl f) \<Rightarrow> (Inl f, c, t1 @ t2)
              | (t2, Inr (signature, token)) \<Rightarrow>
                  (case createSession e c sv ks signature token of
                     (t3, Inl f) \<Rightarrow> (Inl f, c, t1 @ t2 @ t3)
                   | (t3, Inr sessionId) \<Rightarrow>
                       (Inr sessionId, c\<lparr>SessionId := sessionId\<rparr>, t1 @ t2 @ t3))))"

subsection \<open>Logout\<close>

text \<open>
  \<^verbatim>\<open>Logout\<close>, lines 919 to 938. \<^verbatim>\<open>http.NewRequest\<close> fails for a URL that does not
  parse, with the error the environment gives. \<open>Inl (Error msg)\<close> is the return of
  \<^verbatim>\<open>false\<close> with an error, \<open>Inr True\<close> the return of \<^verbatim>\<open>true, nil\<close>.
\<close>

definition Logout :: "env \<Rightarrow> AuthClient \<Rightarrow> (fault + bool) \<times> AuthClient" where
  "Logout e c =
     (case NewRequest_error e ''POST'' (getUrl c ''/api/v1/auth/logout'') of
        Some err \<Rightarrow> (Inl (Error err), c)
      | None \<Rightarrow>
          (let request = \<lparr>Method = ''POST'', URL = getUrl c ''/api/v1/auth/logout'', Header = []\<rparr>;
               request = request\<lparr>Header := Header request
                                    @ [(''authorization'', ''Session '' @ SessionId c)]\<rparr>
           in case client_Do e request of
                None \<Rightarrow> (Inl (Error ''logout error''), c)
              | Some response \<Rightarrow>
                  if StatusCode response \<noteq> 200 then (Inl (Error ''logout error''), c)
                  else (Inr True, c\<lparr>SessionId := ''''\<rparr>)))"

subsection \<open>A stub server\<close>

text \<open>
  Concrete environments for the scenarios of the specification's section 8: password
  \<^verbatim>\<open>changeme\<close>, salt \<^verbatim>\<open>base64("0123456789ABCDEF")\<close>, 20000 rounds, server nonce
  \<^verbatim>\<open>SrvNonce-xyz\<close> and transaction \<^verbatim>\<open>tx-1\<close>. The primitives are stand-ins that
  are easy to evaluate and have the output lengths of the real ones; they are no
  cryptography. The stub answers by URL, with the three responses it is given, and it
  decodes the three base64 strings that occur in the scenarios.
\<close>

definition toy_pad :: "bytes \<Rightarrow> bytes" where
  "toy_pad b = take 32 (b @ ''################################'')"

definition toy_mac :: "bytes \<Rightarrow> bytes \<Rightarrow> bytes" where
  "toy_mac key msg = toy_pad (take 8 key @ msg)"

definition toy_seal :: "bytes \<Rightarrow> bytes \<Rightarrow> bytes \<Rightarrow> bytes" where
  "toy_seal key nonce plaintext = plaintext @ take 8 key @ take 8 nonce"

definition stub_signature :: bytes where
  "stub_signature = ''changemen=user,r=YWJjZGVmZ2hpamt''"

definition stub_tampered :: bytes where
  "stub_tampered = ''changemen=user,r=YWJjZGVmZ2hpamu''"

definition stub_decode :: "string \<Rightarrow> bytes" where
  "stub_decode s =
     (if s = ''MDEyMzQ1Njc4OUFCQ0RFRg=='' then ''0123456789ABCDEF''
      else if s = ''Y2hhbmdlbWVuPXVzZXIscj1ZV0pqWkdWbVoyaHBhbXQ='' then stub_signature
      else if s = ''Y2hhbmdlbWVuPXVzZXIscj1ZV0pqWkdWbVoyaHBhbXU='' then stub_tampered
      else [])"

definition stub_post ::
  "Response \<Rightarrow> Response \<Rightarrow> Response \<Rightarrow> string \<Rightarrow> request_body \<Rightarrow> Response option" where
  "stub_post start finish session url b =
     (if url = ''http://inverter/api/v1/auth/start'' then Some start
      else if url = ''http://inverter/api/v1/auth/finish'' then Some finish
      else if url = ''http://inverter/api/v1/auth/create_session'' then Some session
      else None)"

definition stub_env :: "Response \<Rightarrow> Response \<Rightarrow> Response \<Rightarrow> Response option \<Rightarrow> env" where
  "stub_env start finish session logout =
     \<lparr>RandSeq = (\<lambda>n. take n ''abcdefghijklmnopqrstuvwxyz''),
      GetPBKDF2Hash = (\<lambda>password salt n. toy_pad (password @ salt)),
      GetHMACSHA256 = toy_mac,
      GetSHA256Hash = (\<lambda>b. toy_pad (rev b)),
      CreateClientProof = (\<lambda>sig key. take 4 sig @ take 4 key),
      GenerateRandomBytes = (\<lambda>n. take n ''0123456789abcdefghij''),
      DecodeString = stub_decode,
      hmac_sha256 = toy_mac,
      gcm_Seal = toy_seal,
      int64_overflow = (\<lambda>x. - (2 ^ 63)),
      http_Post = stub_post start finish session,
      NewRequest_error = (\<lambda>method url. None),
      client_Do = (\<lambda>request. logout)\<rparr>"

definition stub_client :: AuthClient where
  "stub_client = NewWithParameter
     \<lparr>Scheme = ''HtTpS'', Server = ''inverter'', Password = ''changeme'', SessionId = ''''\<rparr>"

definition ok_start_body :: "string \<Rightarrow> json option" where
  "ok_start_body =
     [''nonce'' \<mapsto> JString ''SrvNonce-xyz'', ''rounds'' \<mapsto> JNumber 20000,
      ''salt'' \<mapsto> JString ''MDEyMzQ1Njc4OUFCQ0RFRg=='',
      ''transactionId'' \<mapsto> JString ''tx-1'']"

definition ok_start :: Response where
  "ok_start = \<lparr>StatusCode = 200, Body = Decoded ok_start_body\<rparr>"

definition malformed_start_body :: "string \<Rightarrow> json option" where
  "malformed_start_body =
     [''nonce'' \<mapsto> JString ''SrvNonce-xyz'', ''rounds'' \<mapsto> JString ''many'',
      ''salt'' \<mapsto> JString ''MDEyMzQ1Njc4OUFCQ0RFRg=='',
      ''transactionId'' \<mapsto> JString ''tx-1'']"

definition malformed_start :: Response where
  "malformed_start = \<lparr>StatusCode = 200, Body = Decoded malformed_start_body\<rparr>"

definition ok_finish_body :: "string \<Rightarrow> json option" where
  "ok_finish_body =
     [''signature'' \<mapsto> JString ''Y2hhbmdlbWVuPXVzZXIscj1ZV0pqWkdWbVoyaHBhbXQ='',
      ''token'' \<mapsto> JString ''token-1'']"

definition ok_finish :: Response where
  "ok_finish = \<lparr>StatusCode = 200, Body = Decoded ok_finish_body\<rparr>"

definition bad_password_body :: "string \<Rightarrow> json option" where
  "bad_password_body = [''error'' \<mapsto> JString ''bad'']"

definition bad_password_finish :: Response where
  "bad_password_finish = \<lparr>StatusCode = 400, Body = Decoded bad_password_body\<rparr>"

definition tampered_finish_body :: "string \<Rightarrow> json option" where
  "tampered_finish_body =
     [''signature'' \<mapsto> JString ''Y2hhbmdlbWVuPXVzZXIscj1ZV0pqWkdWbVoyaHBhbXU='',
      ''token'' \<mapsto> JString ''token-1'']"

definition tampered_finish :: Response where
  "tampered_finish = \<lparr>StatusCode = 200, Body = Decoded tampered_finish_body\<rparr>"

definition ok_session :: Response where
  "ok_session = \<lparr>StatusCode = 200, Body = Decoded [''sessionId'' \<mapsto> JString ''sess-1'']\<rparr>"

definition ok_start_values :: start_values where
  "ok_start_values =
     \<lparr>userName = ''user'',
      startRequest = AuthStartRequestType ''YWJjZGVmZ2hpamts'' ''user'',
      serverNonce = ''SrvNonce-xyz'', rounds = 20000,
      serverSalt = ''MDEyMzQ1Njc4OUFCQ0RFRg=='', transactionId = ''tx-1''\<rparr>"

text \<open>The scenarios used below, and a client that holds a session.\<close>

definition happy_env :: env where
  "happy_env = stub_env ok_start ok_finish ok_session
                 (Some \<lparr>StatusCode = 200, Body = Decoded Map.empty\<rparr>)"

definition bad_password_env :: env where
  "bad_password_env = stub_env ok_start bad_password_finish ok_session None"

definition tampered_env :: env where
  "tampered_env = stub_env ok_start tampered_finish ok_session None"

definition malformed_env :: env where
  "malformed_env = stub_env malformed_start ok_finish ok_session None"

definition offline_env :: env where
  "offline_env = stub_env ok_start ok_finish ok_session None"

definition active_client :: AuthClient where
  "active_client = stub_client\<lparr>SessionId := ''sess-1''\<rparr>"

subsection \<open>Counting the occurrences of a pattern\<close>

text \<open>
  The number of positions of a string at which a non-empty pattern starts, which is the
  count of its occurrences as a substring.
\<close>

fun occurrences :: "string \<Rightarrow> string \<Rightarrow> nat" where
  "occurrences p [] = 0"
| "occurrences p (x # xs) = (if prefix p (x # xs) then 1 else 0) + occurrences p xs"

section \<open>Properties\<close>

subsection \<open>Facts about the library functions\<close>

lemma bytes_Compare_eq_0: "bytes_Compare a b = 0 \<longleftrightarrow> a = b"
  by (induction a b rule: bytes_Compare.induct) auto

lemma encodeChar_not_pad: "encodeChar v \<noteq> CHR ''=''"
proof -
  have "\<forall>c \<in> set encodeStd. c \<noteq> CHR ''=''"
    by (simp add: encodeStd_def)
  moreover have "encodeStd ! (v mod 64) \<in> set encodeStd"
    by (rule nth_mem) (simp add: encodeStd_def)
  ultimately show ?thesis
    by (simp add: encodeChar_def)
qed

lemma EncodeToString_no_pad:
  "length src mod 3 = 0 \<Longrightarrow> CHR ''='' \<notin> set (EncodeToString src)"
proof (induction src rule: EncodeToString.induct)
  case (1 a b c src)
  then show ?case
    by (simp add: Let_def encodeChar_not_pad [symmetric])
qed simp_all

lemma EncodeToString_nonce: "EncodeToString ''abcdefghijkl'' = ''YWJjZGVmZ2hpamts''"
  by (simp add: encodeChar_def encodeStd_def)

lemma EncodeToString_salt: "EncodeToString ''0123456789ABCDEF'' = ''MDEyMzQ1Njc4OUFCQ0RFRg==''"
  by (simp add: encodeChar_def encodeStd_def)

lemma FormatInt_20000: "FormatInt 20000 = ''20000''"
  by (simp add: FormatInt_def formatBits.simps digitChar_def)

lemma int64_of_float64_20000: "int64_of_float64 e 20000 = 20000"
  by (simp add: int64_of_float64_def)

lemma occurrences_skip:
  "CHR ''='' \<notin> set xs \<Longrightarrow> y \<noteq> CHR ''='' \<Longrightarrow>
   occurrences (a # CHR ''='' # q) (xs @ y # ys) = occurrences (a # CHR ''='' # q) (y # ys)"
proof (induction xs)
  case Nil
  then show ?case by simp
next
  case (Cons x xs)
  then show ?case by (cases xs) auto
qed

lemma occurrences_fixture:
  assumes "CHR ''='' \<notin> set n"
  defines "msg \<equiv> ''n=user,r='' @ n
     @ '',r=SrvNonce-xyz,s=MDEyMzQ1Njc4OUFCQ0RFRg==,i=20000,c=biws,r=SrvNonce-xyz''"
  shows "occurrences ''r='' msg = 3" and "occurrences ''s='' msg = 1"
    and "occurrences ''i='' msg = 1" and "occurrences ''c=biws'' msg = 1"
  unfolding msg_def by (simp_all add: occurrences_skip [OF assms(1)])

lemma assertString_Inr: "assertString v = Inr s \<longleftrightarrow> v = Some (JString s)"
  by (auto simp: assertString_def split: option.splits json.splits)

lemma assertString_Inl: "assertString v = Inl f \<longleftrightarrow> f = Panic \<and> (\<forall>s. v \<noteq> Some (JString s))"
  by (auto simp: assertString_def split: option.splits json.splits)

lemma assertFloat64_Inr: "assertFloat64 v = Inr x \<longleftrightarrow> v = Some (JNumber x)"
  by (auto simp: assertFloat64_def split: option.splits json.splits)

lemma assertFloat64_Inl: "assertFloat64 v = Inl f \<longleftrightarrow> f = Panic \<and> (\<forall>x. v \<noteq> Some (JNumber x))"
  by (auto simp: assertFloat64_def split: option.splits json.splits)

subsection \<open>The four parts of Login\<close>

lemma getUrl_inject: "getUrl c p = getUrl c q \<longleftrightarrow> p = q"
  by (simp add: getUrl_def)

lemma authStart_sent:
  "fst (authStart e c) =
     [(getUrl c endpointAuthStart, AuthStartRequestType (EncodeToString (RandSeq e 12)) ''user'')]"
  by (simp add: authStart_def Let_def split: option.splits body.splits sum.splits)

lemma authStart_ok:
  assumes "http_Post e (getUrl c endpointAuthStart)
             (AuthStartRequestType (EncodeToString (RandSeq e 12)) ''user'') = Some resp"
    and "Body resp = Decoded result"
    and "result ''nonce'' = Some (JString nonce)"
    and "result ''rounds'' = Some (JNumber x)"
    and "result ''salt'' = Some (JString salt)"
    and "result ''transactionId'' = Some (JString tid)"
  shows "authStart e c =
     ([(getUrl c endpointAuthStart, AuthStartRequestType (EncodeToString (RandSeq e 12)) ''user'')],
      Inr \<lparr>userName = ''user'',
           startRequest = AuthStartRequestType (EncodeToString (RandSeq e 12)) ''user'',
           serverNonce = nonce, rounds = int64_of_float64 e x,
           serverSalt = salt, transactionId = tid\<rparr>)"
  using assms by (simp add: authStart_def Let_def assertString_def assertFloat64_def)

lemma authStart_panics:
  assumes "http_Post e (getUrl c endpointAuthStart)
             (AuthStartRequestType (EncodeToString (RandSeq e 12)) ''user'') = Some resp"
    and "Body resp = Decoded result"
    and "(\<forall>s. result ''nonce'' \<noteq> Some (JString s)) \<or> (\<forall>x. result ''rounds'' \<noteq> Some (JNumber x))
         \<or> (\<forall>s. result ''salt'' \<noteq> Some (JString s)) \<or> (\<forall>s. result ''transactionId'' \<noteq> Some (JString s))"
  shows "authStart e c =
     ([(getUrl c endpointAuthStart, AuthStartRequestType (EncodeToString (RandSeq e 12)) ''user'')],
      Inl Panic)"
  using assms
  by (auto simp add: authStart_def Let_def assertString_Inl assertFloat64_Inl assertString_Inr assertFloat64_Inr
         split: sum.splits)

lemma authMessage_deriveKeys:
  "authMessage (deriveKeys e c sv) =
     ''n='' @ userName sv @ '',r='' @ Nonce (startRequest sv) @ '',r='' @ serverNonce sv
       @ '',s='' @ serverSalt sv @ '',i='' @ FormatInt (rounds sv) @ '',c=biws,r='' @ serverNonce sv"
  by (simp add: deriveKeys_def Let_def)

lemma authFinish_sent:
  "fst (authFinish e c sv ks) =
     [(getUrl c endpointAuthFinish, AuthFinishRequestType (transactionId sv) (clientProof ks))]"
  by (simp add: authFinish_def Let_def split: option.splits body.splits sum.splits)

lemma authFinish_result:
  assumes "http_Post e (getUrl c endpointAuthFinish)
             (AuthFinishRequestType (transactionId sv) (clientProof ks)) = Some respFinish"
    and "Body respFinish = Decoded resultFinish"
  shows "snd (authFinish e c sv ks) =
     (if resultFinish ''signature'' = None \<or> resultFinish ''token'' = None
      then Inl (Error ''authentication failed'')
      else case assertString (resultFinish ''signature'') of
             Inl f \<Rightarrow> Inl f
           | Inr signatureStr \<Rightarrow>
               (case assertString (resultFinish ''token'') of
                  Inl f \<Rightarrow> Inl f
                | Inr token \<Rightarrow> Inr (DecodeString e signatureStr, token)))"
  using assms by (simp add: authFinish_def Let_def split: sum.splits)

lemma createSession_error:
  "snd (createSession e c sv ks signature token) = Inl (Error msg) \<Longrightarrow>
     msg \<noteq> ''authentication failed''"
  by (auto simp: createSession_def Let_def assertString_def
       split: if_splits option.splits body.splits sum.splits json.splits)

lemma createSession_mismatch:
  "signature \<noteq> serverSignature ks \<Longrightarrow>
     createSession e c sv ks signature token = ([], Inl (Error ''signature check error''))"
  by (simp add: createSession_def Let_def bytes_Compare_eq_0)

lemma protocolKey_eq:
  "protocolKey e ks = hmac_sha256 e (storedKey ks) (''Session Key'' @ authMessage ks @ clientKey ks)"
  by (simp add: protocolKey_def hmac_New_def hmac_Write_def hmac_Sum_def)

lemma createSession_sent:
  assumes "key = protocolKey e ks"
    and "length key = 32"
    and "length (GenerateRandomBytes e 16) = 16"
    and "int (length token) \<le> 68719476704"
    and "sealed = gcm_Seal e key (GenerateRandomBytes e 16) token"
    and "16 \<le> length sealed"
  shows "fst (createSession e c sv ks (serverSignature ks) token) =
     [(getUrl c endpointAuthCreateSession,
       AuthCreateSessionType (transactionId sv) (EncodeToString (GenerateRandomBytes e 16))
         (EncodeToString (drop (length sealed - 16) sealed))
         (EncodeToString (take (length sealed - 16) sealed)))]"
  using assms
  by (simp add: createSession_def Let_def bytes_Compare_eq_0
        split: option.splits body.splits sum.splits)

lemma Login_fst:
  assumes "authStart e c = (t1, Inr sv)"
  shows "fst (Login e c) =
     (case snd (authFinish e c sv (deriveKeys e c sv)) of
        Inl f \<Rightarrow> Inl f
      | Inr (signature, token) \<Rightarrow>
          snd (createSession e c sv (deriveKeys e c sv) signature token))"
  using assms by (simp add: Login_def Let_def split: prod.splits sum.splits)

lemma Login_after_start:
  assumes "authStart e c = (t1, Inr sv)"
    and "snd (authFinish e c sv (deriveKeys e c sv)) = Inr (signature, token)"
  shows "Login e c =
     (case snd (createSession e c sv (deriveKeys e c sv) signature token) of
        Inl f \<Rightarrow> Inl f | Inr s \<Rightarrow> Inr s,
      case snd (createSession e c sv (deriveKeys e c sv) signature token) of
        Inl f \<Rightarrow> c | Inr s \<Rightarrow> c\<lparr>SessionId := s\<rparr>,
      [(getUrl c endpointAuthStart, AuthStartRequestType (EncodeToString (RandSeq e 12)) ''user''),
       (getUrl c endpointAuthFinish,
        AuthFinishRequestType (transactionId sv) (clientProof (deriveKeys e c sv)))]
      @ fst (createSession e c sv (deriveKeys e c sv) signature token))"
  using assms authStart_sent [of e c] authFinish_sent [of e c sv "deriveKeys e c sv"]
  by (auto simp add: Login_def Let_def split: prod.splits sum.splits)

lemma Login_posts_prefix:
  assumes "authStart e c = (t1, Inr sv)"
  shows "take 2 (snd (snd (Login e c))) =
     [(getUrl c endpointAuthStart, AuthStartRequestType (EncodeToString (RandSeq e 12)) ''user''),
      (getUrl c endpointAuthFinish,
       AuthFinishRequestType (transactionId sv) (clientProof (deriveKeys e c sv)))]"
  using assms authStart_sent [of e c] authFinish_sent [of e c sv "deriveKeys e c sv"]
  by (auto simp add: Login_def Let_def split: prod.splits sum.splits)

lemma clientProof_deriveKeys:
  "clientProof (deriveKeys e c sv) =
     CreateClientProof e
       (GetHMACSHA256 e (storedKey (deriveKeys e c sv)) (authMessage (deriveKeys e c sv)))
       (clientKey (deriveKeys e c sv))"
  by (simp add: deriveKeys_def Let_def)

lemma serverSignature_deriveKeys:
  "serverSignature (deriveKeys e c sv) =
     GetHMACSHA256 e (serverKey (deriveKeys e c sv)) (authMessage (deriveKeys e c sv))"
  by (simp add: deriveKeys_def Let_def)

lemma Logout_success:
  assumes "NewRequest_error e ''POST'' (getUrl c ''/api/v1/auth/logout'') = None"
    and "client_Do e \<lparr>Method = ''POST'', URL = getUrl c ''/api/v1/auth/logout'',
            Header = [(''authorization'', ''Session '' @ SessionId c)]\<rparr> = Some response"
    and "StatusCode response = 200"
  shows "Logout e c = (Inr True, c\<lparr>SessionId := ''''\<rparr>)"
  using assms by (simp add: Logout_def Let_def)

subsection \<open>The stub server evaluated\<close>

lemma getUrl_stub:
  "getUrl stub_client endpointAuthStart = ''http://inverter/api/v1/auth/start''"
  "getUrl stub_client endpointAuthFinish = ''http://inverter/api/v1/auth/finish''"
  "getUrl stub_client endpointAuthCreateSession = ''http://inverter/api/v1/auth/create_session''"
  by (simp_all add: getUrl_def stub_client_def NewWithParameter_def endpointAuthStart_def
        endpointAuthFinish_def endpointAuthCreateSession_def)

lemma stub_RandSeq: "RandSeq (stub_env a b s l) 12 = ''abcdefghijkl''"
  by (simp add: stub_env_def)

lemma stub_http_Post:
  "http_Post (stub_env a b s l) ''http://inverter/api/v1/auth/start'' r = Some a"
  "http_Post (stub_env a b s l) ''http://inverter/api/v1/auth/finish'' r = Some b"
  "http_Post (stub_env a b s l) ''http://inverter/api/v1/auth/create_session'' r = Some s"
  by (simp_all add: stub_env_def stub_post_def)

lemma stub_authStart:
  "authStart (stub_env ok_start b s l) stub_client =
     ([(''http://inverter/api/v1/auth/start'', AuthStartRequestType ''YWJjZGVmZ2hpamts'' ''user'')],
      Inr ok_start_values)"
proof -
  have "authStart (stub_env ok_start b s l) stub_client =
     ([(getUrl stub_client endpointAuthStart,
        AuthStartRequestType (EncodeToString (RandSeq (stub_env ok_start b s l) 12)) ''user'')],
      Inr \<lparr>userName = ''user'',
           startRequest = AuthStartRequestType (EncodeToString (RandSeq (stub_env ok_start b s l) 12)) ''user'',
           serverNonce = ''SrvNonce-xyz'', rounds = int64_of_float64 (stub_env ok_start b s l) 20000,
           serverSalt = ''MDEyMzQ1Njc4OUFCQ0RFRg=='', transactionId = ''tx-1''\<rparr>)"
    by (rule authStart_ok [where resp = ok_start and result = ok_start_body])
       (simp_all only: getUrl_stub stub_http_Post, simp_all add: ok_start_def ok_start_body_def)
  then show ?thesis
    by (simp only: getUrl_stub stub_RandSeq EncodeToString_nonce int64_of_float64_20000
          ok_start_values_def)
qed

lemma stub_bodies:
  "Body ok_start = Decoded ok_start_body"
  "Body malformed_start = Decoded malformed_start_body"
  "Body ok_finish = Decoded ok_finish_body"
  "Body bad_password_finish = Decoded bad_password_body"
  "Body tampered_finish = Decoded tampered_finish_body"
  by (simp_all add: ok_start_def malformed_start_def ok_finish_def bad_password_finish_def
        tampered_finish_def)

lemma stub_fields:
  "ok_start_body ''nonce'' = Some (JString ''SrvNonce-xyz'')"
  "ok_start_body ''rounds'' = Some (JNumber 20000)"
  "ok_start_body ''salt'' = Some (JString ''MDEyMzQ1Njc4OUFCQ0RFRg=='')"
  "ok_start_body ''transactionId'' = Some (JString ''tx-1'')"
  "malformed_start_body ''rounds'' = Some (JString ''many'')"
  "ok_finish_body ''signature'' = Some (JString ''Y2hhbmdlbWVuPXVzZXIscj1ZV0pqWkdWbVoyaHBhbXQ='')"
  "ok_finish_body ''token'' = Some (JString ''token-1'')"
  "bad_password_body ''signature'' = None"
  "bad_password_body ''token'' = None"
  "tampered_finish_body ''signature'' = Some (JString ''Y2hhbmdlbWVuPXVzZXIscj1ZV0pqWkdWbVoyaHBhbXU='')"
  "tampered_finish_body ''token'' = Some (JString ''token-1'')"
  by (simp_all add: ok_start_body_def malformed_start_body_def ok_finish_body_def
        bad_password_body_def tampered_finish_body_def)

lemma stub_serverSignature:
  "serverSignature (deriveKeys (stub_env a b s l) stub_client ok_start_values) = stub_signature"
proof -
  have msg: "authMessage (deriveKeys (stub_env a b s l) stub_client ok_start_values) =
      ''n=user,r=YWJjZGVmZ2hpamts,r=SrvNonce-xyz,s=MDEyMzQ1Njc4OUFCQ0RFRg==,i=20000,c=biws,r=SrvNonce-xyz''"
    by (simp add: authMessage_deriveKeys ok_start_values_def FormatInt_20000)
  have "serverSignature (deriveKeys (stub_env a b s l) stub_client ok_start_values) =
      toy_mac (toy_mac (toy_pad (Password stub_client @ stub_decode ''MDEyMzQ1Njc4OUFCQ0RFRg==''))
                 ''Server Key'')
              (authMessage (deriveKeys (stub_env a b s l) stub_client ok_start_values))"
    by (simp add: deriveKeys_def Let_def stub_env_def ok_start_values_def)
  also have "\<dots> = stub_signature"
    unfolding msg
    by (simp add: toy_mac_def toy_pad_def stub_decode_def stub_client_def NewWithParameter_def
          stub_signature_def)
  finally show ?thesis .
qed

lemma stub_DecodeString:
  "DecodeString (stub_env a b s l) ''Y2hhbmdlbWVuPXVzZXIscj1ZV0pqWkdWbVoyaHBhbXQ='' = stub_signature"
  "DecodeString (stub_env a b s l) ''Y2hhbmdlbWVuPXVzZXIscj1ZV0pqWkdWbVoyaHBhbXU='' = stub_tampered"
  by (simp_all add: stub_env_def stub_decode_def)

lemma length_toy_mac: "length (toy_mac k m) = 32"
  by (simp add: toy_mac_def toy_pad_def)

lemma stub_authFinish_ok:
  "snd (authFinish happy_env stub_client ok_start_values ks) = Inr (stub_signature, ''token-1'')"
proof -
  have post: "http_Post happy_env (getUrl stub_client endpointAuthFinish)
        (AuthFinishRequestType (transactionId ok_start_values) (clientProof ks)) = Some ok_finish"
    by (simp only: happy_env_def getUrl_stub stub_http_Post)
  have "DecodeString happy_env ''Y2hhbmdlbWVuPXVzZXIscj1ZV0pqWkdWbVoyaHBhbXQ='' = stub_signature"
    by (simp only: happy_env_def stub_DecodeString)
  then show ?thesis
    unfolding authFinish_result [OF post stub_bodies(3)]
    by (simp add: stub_fields assertString_def)
qed

lemma Logout_offline:
  "Logout offline_env active_client = (Inl (Error ''logout error''), active_client)"
  by (simp add: Logout_def Let_def offline_env_def stub_env_def)

subsection \<open>Constructors and setters\<close>

text \<open>
  C6: for every scheme string, \<^verbatim>\<open>NewWithParameter\<close> and \<^verbatim>\<open>SetScheme\<close> store
  \<^verbatim>\<open>"http"\<close> unless the string is exactly \<^verbatim>\<open>"https"\<close>, which is kept;
  \<^verbatim>\<open>"HTTPS"\<close> and \<^verbatim>\<open>"HtTpS"\<close> become \<^verbatim>\<open>"http"\<close>.
\<close>

theorem scheme_normalized:
  "Scheme (NewWithParameter p) = (if Scheme p = ''https'' then ''https'' else ''http'')
   \<and> Scheme (SetScheme c s) = (if s = ''https'' then ''https'' else ''http'')
   \<and> Scheme (NewWithParameter (p\<lparr>Scheme := ''HTTPS''\<rparr>)) = ''http''
   \<and> Scheme (NewWithParameter (p\<lparr>Scheme := ''HtTpS''\<rparr>)) = ''http''
   \<and> Scheme (SetScheme c ''HTTPS'') = ''http''
   \<and> Scheme (SetScheme c ''HtTpS'') = ''http''
   \<and> Scheme (NewWithParameter (p\<lparr>Scheme := ''https''\<rparr>)) = ''https''
   \<and> Scheme (SetScheme c ''https'') = ''https''"
  by (simp add: NewWithParameter_def SetScheme_def)

text \<open>
  C10: whatever record is passed to \<^verbatim>\<open>NewWithParameter\<close>, the client it returns has
  the empty \<^verbatim>\<open>SessionId\<close>: the argument's \<^verbatim>\<open>SessionId\<close> is not copied.
\<close>

theorem NewWithParameter_SessionId_empty:
  "SessionId (NewWithParameter p) = ''''"
  by (simp add: NewWithParameter_def Let_def)

subsection \<open>The auth message\<close>

text \<open>
  C4: when the AuthStart response carries the four fields, the auth message that
  \<^verbatim>\<open>Login\<close> builds is \<^verbatim>\<open>n=user,r=\<close>, the base64 string sent as the nonce of the
  AuthStart request, \<^verbatim>\<open>,r=\<close>, the server nonce as received, \<^verbatim>\<open>,s=\<close>, the salt as
  received (not decoded), \<^verbatim>\<open>,i=\<close>, the rounds in decimal, \<^verbatim>\<open>,c=biws,r=\<close> and the
  server nonce once more. The first two requests that \<^verbatim>\<open>Login\<close> posts are the
  AuthStart request with that nonce and the user name \<^verbatim>\<open>user\<close>, and the AuthFinish
  request whose proof is made from the MAC of exactly this message under the stored key;
  the server signature that \<^verbatim>\<open>Login\<close> later compares is the MAC of the same message
  under the server key.
\<close>

theorem Login_authMessage:
  assumes "http_Post e (getUrl c endpointAuthStart)
             (AuthStartRequestType (EncodeToString (RandSeq e 12)) ''user'') = Some resp"
    and "Body resp = Decoded result"
    and "result ''nonce'' = Some (JString server_nonce)"
    and "result ''rounds'' = Some (JNumber x)"
    and "result ''salt'' = Some (JString server_salt)"
    and "result ''transactionId'' = Some (JString tid)"
  shows "\<exists>sv. authStart e c =
            ([(getUrl c endpointAuthStart,
               AuthStartRequestType (EncodeToString (RandSeq e 12)) ''user'')], Inr sv)
          \<and> authMessage (deriveKeys e c sv) =
              ''n=user,r='' @ EncodeToString (RandSeq e 12) @ '',r='' @ server_nonce
                @ '',s='' @ server_salt @ '',i='' @ FormatInt (int64_of_float64 e x)
                @ '',c=biws,r='' @ server_nonce
          \<and> take 2 (snd (snd (Login e c))) =
              [(getUrl c endpointAuthStart,
                AuthStartRequestType (EncodeToString (RandSeq e 12)) ''user''),
               (getUrl c endpointAuthFinish,
                AuthFinishRequestType tid
                  (CreateClientProof e
                     (GetHMACSHA256 e (storedKey (deriveKeys e c sv))
                        (''n=user,r='' @ EncodeToString (RandSeq e 12) @ '',r='' @ server_nonce
                           @ '',s='' @ server_salt @ '',i='' @ FormatInt (int64_of_float64 e x)
                           @ '',c=biws,r='' @ server_nonce))
                     (clientKey (deriveKeys e c sv))))]
          \<and> serverSignature (deriveKeys e c sv) =
              GetHMACSHA256 e (serverKey (deriveKeys e c sv))
                (''n=user,r='' @ EncodeToString (RandSeq e 12) @ '',r='' @ server_nonce
                   @ '',s='' @ server_salt @ '',i='' @ FormatInt (int64_of_float64 e x)
                   @ '',c=biws,r='' @ server_nonce)"
proof -
  let ?n = "EncodeToString (RandSeq e 12)"
  let ?msg = "''n=user,r='' @ ?n @ '',r='' @ server_nonce @ '',s='' @ server_salt
                @ '',i='' @ FormatInt (int64_of_float64 e x) @ '',c=biws,r='' @ server_nonce"
  let ?sv = "\<lparr>userName = ''user'', startRequest = AuthStartRequestType ?n ''user'',
           serverNonce = server_nonce, rounds = int64_of_float64 e x,
           serverSalt = server_salt, transactionId = tid\<rparr>"
  have start: "authStart e c =
      ([(getUrl c endpointAuthStart, AuthStartRequestType ?n ''user'')], Inr ?sv)"
    by (rule authStart_ok [OF assms])
  have msg: "authMessage (deriveKeys e c ?sv) = ?msg"
    by (simp add: authMessage_deriveKeys)
  have posts: "take 2 (snd (snd (Login e c))) =
      [(getUrl c endpointAuthStart, AuthStartRequestType ?n ''user''),
       (getUrl c endpointAuthFinish,
        AuthFinishRequestType tid
          (CreateClientProof e (GetHMACSHA256 e (storedKey (deriveKeys e c ?sv)) ?msg)
             (clientKey (deriveKeys e c ?sv))))]"
    using Login_posts_prefix [OF start] clientProof_deriveKeys [of e c ?sv]
    by (simp only: msg start_values.simps)
  have ssig: "serverSignature (deriveKeys e c ?sv)
      = GetHMACSHA256 e (serverKey (deriveKeys e c ?sv)) ?msg"
    using serverSignature_deriveKeys [of e c ?sv] by (simp only: msg)
  from start msg posts ssig show ?thesis by blast
qed

theorem Login_authMessage_witness:
  "http_Post happy_env (getUrl stub_client endpointAuthStart)
     (AuthStartRequestType (EncodeToString (RandSeq happy_env 12)) ''user'') = Some ok_start
   \<and> Body ok_start = Decoded ok_start_body
   \<and> ok_start_body ''nonce'' = Some (JString ''SrvNonce-xyz'')
   \<and> ok_start_body ''rounds'' = Some (JNumber 20000)
   \<and> ok_start_body ''salt'' = Some (JString ''MDEyMzQ1Njc4OUFCQ0RFRg=='')
   \<and> ok_start_body ''transactionId'' = Some (JString ''tx-1'')
   \<and> (\<exists>sv. authStart happy_env stub_client =
          ([(''http://inverter/api/v1/auth/start'',
             AuthStartRequestType ''YWJjZGVmZ2hpamts'' ''user'')], Inr sv)
        \<and> authMessage (deriveKeys happy_env stub_client sv) =
            ''n=user,r=YWJjZGVmZ2hpamts,r=SrvNonce-xyz,s=MDEyMzQ1Njc4OUFCQ0RFRg==,i=20000,c=biws,r=SrvNonce-xyz''
        \<and> take 2 (snd (snd (Login happy_env stub_client))) =
            [(''http://inverter/api/v1/auth/start'',
              AuthStartRequestType ''YWJjZGVmZ2hpamts'' ''user''),
             (''http://inverter/api/v1/auth/finish'',
              AuthFinishRequestType ''tx-1''
                (CreateClientProof happy_env
                   (GetHMACSHA256 happy_env (storedKey (deriveKeys happy_env stub_client sv))
                      ''n=user,r=YWJjZGVmZ2hpamts,r=SrvNonce-xyz,s=MDEyMzQ1Njc4OUFCQ0RFRg==,i=20000,c=biws,r=SrvNonce-xyz'')
                   (clientKey (deriveKeys happy_env stub_client sv))))]
        \<and> serverSignature (deriveKeys happy_env stub_client sv) =
            GetHMACSHA256 happy_env (serverKey (deriveKeys happy_env stub_client sv))
              ''n=user,r=YWJjZGVmZ2hpamts,r=SrvNonce-xyz,s=MDEyMzQ1Njc4OUFCQ0RFRg==,i=20000,c=biws,r=SrvNonce-xyz'')"
proof -
  have post: "http_Post happy_env (getUrl stub_client endpointAuthStart)
     (AuthStartRequestType (EncodeToString (RandSeq happy_env 12)) ''user'') = Some ok_start"
    by (simp only: happy_env_def getUrl_stub stub_http_Post)
  have rand: "RandSeq happy_env 12 = ''abcdefghijkl''"
    by (simp only: happy_env_def stub_RandSeq)
  from Login_authMessage [OF post stub_bodies(1) stub_fields(1-4)]
  have "\<exists>sv. authStart happy_env stub_client =
          ([(''http://inverter/api/v1/auth/start'',
             AuthStartRequestType ''YWJjZGVmZ2hpamts'' ''user'')], Inr sv)
        \<and> authMessage (deriveKeys happy_env stub_client sv) =
            ''n=user,r=YWJjZGVmZ2hpamts,r=SrvNonce-xyz,s=MDEyMzQ1Njc4OUFCQ0RFRg==,i=20000,c=biws,r=SrvNonce-xyz''
        \<and> take 2 (snd (snd (Login happy_env stub_client))) =
            [(''http://inverter/api/v1/auth/start'',
              AuthStartRequestType ''YWJjZGVmZ2hpamts'' ''user''),
             (''http://inverter/api/v1/auth/finish'',
              AuthFinishRequestType ''tx-1''
                (CreateClientProof happy_env
                   (GetHMACSHA256 happy_env (storedKey (deriveKeys happy_env stub_client sv))
                      ''n=user,r=YWJjZGVmZ2hpamts,r=SrvNonce-xyz,s=MDEyMzQ1Njc4OUFCQ0RFRg==,i=20000,c=biws,r=SrvNonce-xyz'')
                   (clientKey (deriveKeys happy_env stub_client sv))))]
        \<and> serverSignature (deriveKeys happy_env stub_client sv) =
            GetHMACSHA256 happy_env (serverKey (deriveKeys happy_env stub_client sv))
              ''n=user,r=YWJjZGVmZ2hpamts,r=SrvNonce-xyz,s=MDEyMzQ1Njc4OUFCQ0RFRg==,i=20000,c=biws,r=SrvNonce-xyz''"
    by (simp only: getUrl_stub rand EncodeToString_nonce int64_of_float64_20000 FormatInt_20000
          append.simps)
  with post stub_bodies(1) stub_fields(1-4) show ?thesis
    by (simp only: simp_thms)
qed

text \<open>
  C5, as amended: for every client nonce of 12 bytes and the server strings of the
  happy-path scenario, the auth message begins with \<^verbatim>\<open>n=user,r=\<close> and contains
  \<^verbatim>\<open>r=\<close> exactly three times (not four), and \<^verbatim>\<open>s=\<close>, \<^verbatim>\<open>i=\<close> and
  \<^verbatim>\<open>c=biws\<close> exactly once each.
\<close>

theorem authMessage_fixture_occurrences:
  assumes "length (RandSeq e 12) = 12"
    and "http_Post e (getUrl c endpointAuthStart)
           (AuthStartRequestType (EncodeToString (RandSeq e 12)) ''user'') = Some resp"
    and "Body resp = Decoded result"
    and "result ''nonce'' = Some (JString ''SrvNonce-xyz'')"
    and "result ''rounds'' = Some (JNumber 20000)"
    and "result ''salt'' = Some (JString (EncodeToString ''0123456789ABCDEF''))"
    and "result ''transactionId'' = Some (JString ''tx-1'')"
  shows "\<exists>sv. authStart e c =
            ([(getUrl c endpointAuthStart,
               AuthStartRequestType (EncodeToString (RandSeq e 12)) ''user'')], Inr sv)
          \<and> prefix ''n=user,r='' (authMessage (deriveKeys e c sv))
          \<and> occurrences ''r='' (authMessage (deriveKeys e c sv)) = 3
          \<and> occurrences ''s='' (authMessage (deriveKeys e c sv)) = 1
          \<and> occurrences ''i='' (authMessage (deriveKeys e c sv)) = 1
          \<and> occurrences ''c=biws'' (authMessage (deriveKeys e c sv)) = 1"
proof -
  let ?n = "EncodeToString (RandSeq e 12)"
  let ?sv = "\<lparr>userName = ''user'', startRequest = AuthStartRequestType ?n ''user'',
           serverNonce = ''SrvNonce-xyz'', rounds = int64_of_float64 e 20000,
           serverSalt = ''MDEyMzQ1Njc4OUFCQ0RFRg=='', transactionId = ''tx-1''\<rparr>"
  have salt: "result ''salt'' = Some (JString ''MDEyMzQ1Njc4OUFCQ0RFRg=='')"
    using assms(6) by (simp only: EncodeToString_salt)
  have start: "authStart e c =
      ([(getUrl c endpointAuthStart, AuthStartRequestType ?n ''user'')], Inr ?sv)"
    by (rule authStart_ok [OF assms(2-5) salt assms(7)])
  have nopad: "CHR ''='' \<notin> set ?n"
    by (rule EncodeToString_no_pad) (simp add: assms(1))
  have msg: "authMessage (deriveKeys e c ?sv) = ''n=user,r='' @ ?n
     @ '',r=SrvNonce-xyz,s=MDEyMzQ1Njc4OUFCQ0RFRg==,i=20000,c=biws,r=SrvNonce-xyz''"
    by (simp add: authMessage_deriveKeys int64_of_float64_20000 FormatInt_20000)
  have "prefix ''n=user,r='' (authMessage (deriveKeys e c ?sv))"
    unfolding msg by simp
  with start occurrences_fixture [OF nopad] show ?thesis
    unfolding msg [symmetric] by blast
qed

theorem authMessage_fixture_occurrences_witness:
  "length (RandSeq happy_env 12) = 12
   \<and> http_Post happy_env (getUrl stub_client endpointAuthStart)
       (AuthStartRequestType (EncodeToString (RandSeq happy_env 12)) ''user'') = Some ok_start
   \<and> Body ok_start = Decoded ok_start_body
   \<and> ok_start_body ''nonce'' = Some (JString ''SrvNonce-xyz'')
   \<and> ok_start_body ''rounds'' = Some (JNumber 20000)
   \<and> ok_start_body ''salt'' = Some (JString (EncodeToString ''0123456789ABCDEF''))
   \<and> ok_start_body ''transactionId'' = Some (JString ''tx-1'')
   \<and> (\<exists>sv. authStart happy_env stub_client =
          ([(getUrl stub_client endpointAuthStart,
             AuthStartRequestType (EncodeToString (RandSeq happy_env 12)) ''user'')], Inr sv)
        \<and> prefix ''n=user,r='' (authMessage (deriveKeys happy_env stub_client sv))
        \<and> occurrences ''r='' (authMessage (deriveKeys happy_env stub_client sv)) = 3
        \<and> occurrences ''s='' (authMessage (deriveKeys happy_env stub_client sv)) = 1
        \<and> occurrences ''i='' (authMessage (deriveKeys happy_env stub_client sv)) = 1
        \<and> occurrences ''c=biws'' (authMessage (deriveKeys happy_env stub_client sv)) = 1)"
proof -
  have len: "length (RandSeq happy_env 12) = 12"
    by (simp add: happy_env_def stub_RandSeq)
  have post: "http_Post happy_env (getUrl stub_client endpointAuthStart)
     (AuthStartRequestType (EncodeToString (RandSeq happy_env 12)) ''user'') = Some ok_start"
    by (simp only: happy_env_def getUrl_stub stub_http_Post)
  have salt: "ok_start_body ''salt'' = Some (JString (EncodeToString ''0123456789ABCDEF''))"
    by (simp only: EncodeToString_salt stub_fields)
  from authMessage_fixture_occurrences
         [OF len post stub_bodies(1) stub_fields(1,2) salt stub_fields(4)]
       len post stub_bodies(1) stub_fields(1,2) salt stub_fields(4)
  show ?thesis by (simp only: simp_thms)
qed

text \<open>
  With the client nonce \<^verbatim>\<open>abcdefghijkl\<close> the auth message of the happy-path scenario
  contains \<^verbatim>\<open>r=\<close> three times, not four.
\<close>

theorem authMessage_four_occurrences_counterexample:
  "authStart happy_env stub_client =
     ([(''http://inverter/api/v1/auth/start'', AuthStartRequestType ''YWJjZGVmZ2hpamts'' ''user'')],
      Inr ok_start_values)
   \<and> authMessage (deriveKeys happy_env stub_client ok_start_values) =
       ''n=user,r=YWJjZGVmZ2hpamts,r=SrvNonce-xyz,s=MDEyMzQ1Njc4OUFCQ0RFRg==,i=20000,c=biws,r=SrvNonce-xyz''
   \<and> occurrences ''r='' (authMessage (deriveKeys happy_env stub_client ok_start_values)) = 3
   \<and> occurrences ''r='' (authMessage (deriveKeys happy_env stub_client ok_start_values)) \<noteq> 4"
proof -
  have msg: "authMessage (deriveKeys happy_env stub_client ok_start_values) =
      ''n=user,r=YWJjZGVmZ2hpamts,r=SrvNonce-xyz,s=MDEyMzQ1Njc4OUFCQ0RFRg==,i=20000,c=biws,r=SrvNonce-xyz''"
    by (simp add: authMessage_deriveKeys ok_start_values_def FormatInt_20000)
  have occ: "occurrences ''r='' (authMessage (deriveKeys happy_env stub_client ok_start_values)) = 3"
    unfolding msg by simp
  from stub_authStart [of ok_finish ok_session "Some \<lparr>StatusCode = 200, Body = Decoded Map.empty\<rparr>"]
       msg occ
  show ?thesis by (simp add: happy_env_def)
qed

subsection \<open>Failures of Login\<close>

text \<open>
  C3 states that a missing field of the AuthStart response, or \<^verbatim>\<open>rounds\<close> given as
  a string, makes \<^verbatim>\<open>Login\<close> return an error. The code has no check there: the type
  assertions of lines 731 to 735 panic, after the AuthStart request and before any other.
\<close>

theorem Login_malformed_AuthStart_panics:
  assumes "http_Post e (getUrl c endpointAuthStart)
             (AuthStartRequestType (EncodeToString (RandSeq e 12)) ''user'') = Some resp"
    and "Body resp = Decoded result"
    and "result ''nonce'' = None \<or> result ''rounds'' = None \<or> result ''salt'' = None
         \<or> result ''transactionId'' = None \<or> (\<exists>s. result ''rounds'' = Some (JString s))"
  shows "Login e c =
           (Inl Panic, c,
            [(getUrl c endpointAuthStart,
              AuthStartRequestType (EncodeToString (RandSeq e 12)) ''user'')])"
proof -
  have "(\<forall>s. result ''nonce'' \<noteq> Some (JString s)) \<or> (\<forall>x. result ''rounds'' \<noteq> Some (JNumber x))
         \<or> (\<forall>s. result ''salt'' \<noteq> Some (JString s))
         \<or> (\<forall>s. result ''transactionId'' \<noteq> Some (JString s))"
    using assms(3) by auto
  from authStart_panics [OF assms(1,2) this] show ?thesis
    by (simp add: Login_def)
qed

theorem Login_malformed_AuthStart_panics_witness:
  "http_Post malformed_env (getUrl stub_client endpointAuthStart)
     (AuthStartRequestType (EncodeToString (RandSeq malformed_env 12)) ''user'')
     = Some malformed_start
   \<and> Body malformed_start = Decoded malformed_start_body
   \<and> malformed_start_body ''rounds'' = Some (JString ''many'')
   \<and> Login malformed_env stub_client =
       (Inl Panic, stub_client,
        [(getUrl stub_client endpointAuthStart,
          AuthStartRequestType (EncodeToString (RandSeq malformed_env 12)) ''user'')])"
proof -
  have post: "http_Post malformed_env (getUrl stub_client endpointAuthStart)
     (AuthStartRequestType (EncodeToString (RandSeq malformed_env 12)) ''user'')
     = Some malformed_start"
    by (simp only: malformed_env_def getUrl_stub stub_http_Post)
  have bad: "malformed_start_body ''nonce'' = None \<or> malformed_start_body ''rounds'' = None
      \<or> malformed_start_body ''salt'' = None \<or> malformed_start_body ''transactionId'' = None
      \<or> (\<exists>s. malformed_start_body ''rounds'' = Some (JString s))"
    using stub_fields(5) by blast
  note concl = Login_malformed_AuthStart_panics [OF post stub_bodies(2) bad]
  show ?thesis
    by (intro conjI post stub_bodies(2) stub_fields(5) concl)
qed

text \<open>
  C7: once the AuthFinish response has been read, whatever its status code,
  \<^verbatim>\<open>Login\<close> returns the error \<^verbatim>\<open>authentication failed\<close> if and only if the
  response body lacks the field \<^verbatim>\<open>signature\<close> or the field \<^verbatim>\<open>token\<close>.
\<close>

theorem Login_authentication_failed_iff:
  assumes "authStart e c = (t1, Inr sv)"
    and "http_Post e (getUrl c endpointAuthFinish)
           (AuthFinishRequestType (transactionId sv) (clientProof (deriveKeys e c sv)))
         = Some respFinish"
    and "Body respFinish = Decoded resultFinish"
  shows "fst (Login e c) = Inl (Error ''authentication failed'')
         \<longleftrightarrow> resultFinish ''signature'' = None \<or> resultFinish ''token'' = None"
proof -
  let ?ks = "deriveKeys e c sv"
  note fin = authFinish_result [OF assms(2,3)]
  show ?thesis
  proof (cases "resultFinish ''signature'' = None \<or> resultFinish ''token'' = None")
    case True
    with fin have "snd (authFinish e c sv ?ks) = Inl (Error ''authentication failed'')"
      by simp
    with True show ?thesis
      by (simp add: Login_fst [OF assms(1)])
  next
    case False
    show ?thesis
    proof (cases "snd (authFinish e c sv ?ks)")
      case (Inl f)
      with fin False have "f = Panic"
        by (auto simp: assertString_Inl split: sum.splits)
      with Inl False show ?thesis
        by (simp add: Login_fst [OF assms(1)])
    next
      case (Inr st)
      obtain signature token where st: "st = (signature, token)" by (cases st)
      have "fst (Login e c) \<noteq> Inl (Error ''authentication failed'')"
        using Inr st createSession_error [of e c sv ?ks signature token]
        by (auto simp: Login_fst [OF assms(1)])
      with False show ?thesis by simp
    qed
  qed
qed

theorem Login_authentication_failed_iff_witness:
  "authStart bad_password_env stub_client =
     ([(''http://inverter/api/v1/auth/start'', AuthStartRequestType ''YWJjZGVmZ2hpamts'' ''user'')],
      Inr ok_start_values)
   \<and> http_Post bad_password_env (getUrl stub_client endpointAuthFinish)
        (AuthFinishRequestType (transactionId ok_start_values)
           (clientProof (deriveKeys bad_password_env stub_client ok_start_values)))
       = Some bad_password_finish
   \<and> Body bad_password_finish = Decoded bad_password_body
   \<and> StatusCode bad_password_finish = 400
   \<and> bad_password_body ''signature'' = None
   \<and> fst (Login bad_password_env stub_client) = Inl (Error ''authentication failed'')"
proof -
  have start: "authStart bad_password_env stub_client =
     ([(''http://inverter/api/v1/auth/start'', AuthStartRequestType ''YWJjZGVmZ2hpamts'' ''user'')],
      Inr ok_start_values)"
    by (simp only: bad_password_env_def stub_authStart)
  have post: "http_Post bad_password_env (getUrl stub_client endpointAuthFinish)
        (AuthFinishRequestType (transactionId ok_start_values)
           (clientProof (deriveKeys bad_password_env stub_client ok_start_values)))
       = Some bad_password_finish"
    by (simp only: bad_password_env_def getUrl_stub stub_http_Post)
  have status: "StatusCode bad_password_finish = 400"
    by (simp add: bad_password_finish_def)
  from Login_authentication_failed_iff [OF start post stub_bodies(4)] stub_fields(8)
  have "fst (Login bad_password_env stub_client) = Inl (Error ''authentication failed'')"
    by simp
  with start post stub_bodies(4) status stub_fields(8) show ?thesis
    by (simp only: simp_thms)
qed

text \<open>
  C8: when the AuthFinish response carries a signature and a token, and the decoded
  signature differs from the server signature computed by the client, \<^verbatim>\<open>Login\<close>
  returns the error \<^verbatim>\<open>signature check error\<close>, leaves the client as it was, and has
  issued the AuthStart and AuthFinish requests only: no request goes to the
  \<^verbatim>\<open>create_session\<close> endpoint.
\<close>

theorem Login_signature_mismatch:
  assumes "authStart e c = (t1, Inr sv)"
    and "http_Post e (getUrl c endpointAuthFinish)
           (AuthFinishRequestType (transactionId sv) (clientProof (deriveKeys e c sv)))
         = Some respFinish"
    and "Body respFinish = Decoded resultFinish"
    and "resultFinish ''signature'' = Some (JString signatureStr)"
    and "resultFinish ''token'' = Some (JString token)"
    and "DecodeString e signatureStr \<noteq> serverSignature (deriveKeys e c sv)"
  shows "Login e c =
           (Inl (Error ''signature check error''), c,
            [(getUrl c endpointAuthStart,
              AuthStartRequestType (EncodeToString (RandSeq e 12)) ''user''),
             (getUrl c endpointAuthFinish,
              AuthFinishRequestType (transactionId sv) (clientProof (deriveKeys e c sv)))])
         \<and> getUrl c endpointAuthCreateSession \<notin> fst ` set (snd (snd (Login e c)))"
proof -
  let ?ks = "deriveKeys e c sv"
  have t1: "t1 = [(getUrl c endpointAuthStart,
              AuthStartRequestType (EncodeToString (RandSeq e 12)) ''user'')]"
    using authStart_sent [of e c] assms(1) by simp
  have "snd (authFinish e c sv ?ks) = Inr (DecodeString e signatureStr, token)"
    using authFinish_result [OF assms(2,3)] assms(4,5) by (simp add: assertString_def)
  then have fin: "authFinish e c sv ?ks =
      ([(getUrl c endpointAuthFinish, AuthFinishRequestType (transactionId sv) (clientProof ?ks))],
       Inr (DecodeString e signatureStr, token))"
    using authFinish_sent [of e c sv ?ks] by (simp add: prod_eq_iff)
  have login: "Login e c =
           (Inl (Error ''signature check error''), c,
            [(getUrl c endpointAuthStart,
              AuthStartRequestType (EncodeToString (RandSeq e 12)) ''user''),
             (getUrl c endpointAuthFinish,
              AuthFinishRequestType (transactionId sv) (clientProof ?ks))])"
    using assms(1) t1 fin createSession_mismatch [OF assms(6), of e c sv token]
    by (simp add: Login_def Let_def)
  show ?thesis
    unfolding login
    by (simp add: getUrl_inject endpointAuthStart_def endpointAuthFinish_def
          endpointAuthCreateSession_def)
qed

theorem Login_signature_mismatch_witness:
  "authStart tampered_env stub_client =
     ([(''http://inverter/api/v1/auth/start'', AuthStartRequestType ''YWJjZGVmZ2hpamts'' ''user'')],
      Inr ok_start_values)
   \<and> http_Post tampered_env (getUrl stub_client endpointAuthFinish)
        (AuthFinishRequestType (transactionId ok_start_values)
           (clientProof (deriveKeys tampered_env stub_client ok_start_values)))
       = Some tampered_finish
   \<and> Body tampered_finish = Decoded tampered_finish_body
   \<and> tampered_finish_body ''signature''
       = Some (JString ''Y2hhbmdlbWVuPXVzZXIscj1ZV0pqWkdWbVoyaHBhbXU='')
   \<and> tampered_finish_body ''token'' = Some (JString ''token-1'')
   \<and> DecodeString tampered_env ''Y2hhbmdlbWVuPXVzZXIscj1ZV0pqWkdWbVoyaHBhbXU=''
       \<noteq> serverSignature (deriveKeys tampered_env stub_client ok_start_values)
   \<and> Login tampered_env stub_client =
       (Inl (Error ''signature check error''), stub_client,
        [(getUrl stub_client endpointAuthStart,
          AuthStartRequestType (EncodeToString (RandSeq tampered_env 12)) ''user''),
         (getUrl stub_client endpointAuthFinish,
          AuthFinishRequestType (transactionId ok_start_values)
            (clientProof (deriveKeys tampered_env stub_client ok_start_values)))])
   \<and> getUrl stub_client endpointAuthCreateSession
       \<notin> fst ` set (snd (snd (Login tampered_env stub_client)))"
proof -
  have start: "authStart tampered_env stub_client =
     ([(''http://inverter/api/v1/auth/start'', AuthStartRequestType ''YWJjZGVmZ2hpamts'' ''user'')],
      Inr ok_start_values)"
    by (simp only: tampered_env_def stub_authStart)
  have post: "http_Post tampered_env (getUrl stub_client endpointAuthFinish)
        (AuthFinishRequestType (transactionId ok_start_values)
           (clientProof (deriveKeys tampered_env stub_client ok_start_values)))
       = Some tampered_finish"
    by (simp only: tampered_env_def getUrl_stub stub_http_Post)
  have differ: "DecodeString tampered_env ''Y2hhbmdlbWVuPXVzZXIscj1ZV0pqWkdWbVoyaHBhbXU=''
       \<noteq> serverSignature (deriveKeys tampered_env stub_client ok_start_values)"
    by (simp add: tampered_env_def stub_DecodeString stub_serverSignature stub_tampered_def
          stub_signature_def)
  note concl = Login_signature_mismatch [OF start post stub_bodies(5) stub_fields(10,11) differ]
  show ?thesis
    by (intro conjI start post stub_bodies(5) stub_fields(10,11) differ
          conjunct1 [OF concl] conjunct2 [OF concl])
qed

subsection \<open>The protocol key\<close>

text \<open>
  C9: the protocol key is the HMAC-SHA-256, keyed with the stored key, of the bytes
  \<^verbatim>\<open>Session Key\<close> followed by the auth message followed by the client key. With a MAC
  of 32 bytes it is the key under which \<^verbatim>\<open>Login\<close> seals the token: the CreateSession
  request carries the sealed text of that key, split into payload and tag.
\<close>

theorem Login_protocolKey:
  assumes "authStart e c = (t1, Inr sv)"
    and "ks = deriveKeys e c sv"
    and "snd (authFinish e c sv ks) = Inr (serverSignature ks, token)"
    and "key = hmac_sha256 e (storedKey ks) (''Session Key'' @ authMessage ks @ clientKey ks)"
    and "length key = 32"
    and "length (GenerateRandomBytes e 16) = 16"
    and "int (length token) \<le> 68719476704"
    and "sealed = gcm_Seal e key (GenerateRandomBytes e 16) token"
    and "16 \<le> length sealed"
  shows "protocolKey e ks = key
       \<and> snd (snd (Login e c)) =
           [(getUrl c endpointAuthStart,
             AuthStartRequestType (EncodeToString (RandSeq e 12)) ''user''),
            (getUrl c endpointAuthFinish,
             AuthFinishRequestType (transactionId sv) (clientProof ks)),
            (getUrl c endpointAuthCreateSession,
             AuthCreateSessionType (transactionId sv)
               (EncodeToString (GenerateRandomBytes e 16))
               (EncodeToString (drop (length sealed - 16) sealed))
               (EncodeToString (take (length sealed - 16) sealed)))]"
proof -
  have key: "key = protocolKey e ks"
    using assms(4) by (simp add: protocolKey_eq)
  have sent: "fst (createSession e c sv ks (serverSignature ks) token) =
     [(getUrl c endpointAuthCreateSession,
       AuthCreateSessionType (transactionId sv) (EncodeToString (GenerateRandomBytes e 16))
         (EncodeToString (drop (length sealed - 16) sealed))
         (EncodeToString (take (length sealed - 16) sealed)))]"
    by (rule createSession_sent [OF key assms(5,6,7,8,9)])
  have "snd (snd (Login e c)) =
      [(getUrl c endpointAuthStart, AuthStartRequestType (EncodeToString (RandSeq e 12)) ''user''),
       (getUrl c endpointAuthFinish, AuthFinishRequestType (transactionId sv) (clientProof ks))]
      @ fst (createSession e c sv ks (serverSignature ks) token)"
    using Login_after_start [OF assms(1), of "serverSignature ks" token] assms(2,3)
    by simp
  with sent key show ?thesis by simp
qed

theorem Login_protocolKey_witness:
  "authStart happy_env stub_client =
     ([(''http://inverter/api/v1/auth/start'', AuthStartRequestType ''YWJjZGVmZ2hpamts'' ''user'')],
      Inr ok_start_values)
   \<and> snd (authFinish happy_env stub_client ok_start_values
            (deriveKeys happy_env stub_client ok_start_values))
       = Inr (serverSignature (deriveKeys happy_env stub_client ok_start_values), ''token-1'')
   \<and> length (hmac_sha256 happy_env
         (storedKey (deriveKeys happy_env stub_client ok_start_values))
         (''Session Key'' @ authMessage (deriveKeys happy_env stub_client ok_start_values)
            @ clientKey (deriveKeys happy_env stub_client ok_start_values))) = 32
   \<and> length (GenerateRandomBytes happy_env 16) = 16
   \<and> int (length ''token-1'') \<le> 68719476704
   \<and> 16 \<le> length (gcm_Seal happy_env
         (hmac_sha256 happy_env
            (storedKey (deriveKeys happy_env stub_client ok_start_values))
            (''Session Key'' @ authMessage (deriveKeys happy_env stub_client ok_start_values)
               @ clientKey (deriveKeys happy_env stub_client ok_start_values)))
         (GenerateRandomBytes happy_env 16) ''token-1'')
   \<and> protocolKey happy_env (deriveKeys happy_env stub_client ok_start_values) =
       hmac_sha256 happy_env
         (storedKey (deriveKeys happy_env stub_client ok_start_values))
         (''Session Key'' @ authMessage (deriveKeys happy_env stub_client ok_start_values)
            @ clientKey (deriveKeys happy_env stub_client ok_start_values))
   \<and> length (snd (snd (Login happy_env stub_client))) = 3"
proof -
  let ?ks = "deriveKeys happy_env stub_client ok_start_values"
  let ?key = "hmac_sha256 happy_env (storedKey ?ks)
                (''Session Key'' @ authMessage ?ks @ clientKey ?ks)"
  let ?sealed = "gcm_Seal happy_env ?key (GenerateRandomBytes happy_env 16) ''token-1''"
  have start: "authStart happy_env stub_client =
     ([(''http://inverter/api/v1/auth/start'', AuthStartRequestType ''YWJjZGVmZ2hpamts'' ''user'')],
      Inr ok_start_values)"
    by (simp only: happy_env_def stub_authStart)
  have fin: "snd (authFinish happy_env stub_client ok_start_values ?ks)
       = Inr (serverSignature ?ks, ''token-1'')"
    by (simp only: stub_authFinish_ok) (simp add: happy_env_def stub_serverSignature)
  have mac: "hmac_sha256 happy_env = toy_mac"
    by (simp add: happy_env_def stub_env_def)
  have len: "length ?key = 32"
    by (simp only: mac length_toy_mac)
  have iv: "length (GenerateRandomBytes happy_env 16) = 16"
    by (simp add: happy_env_def stub_env_def)
  have tok: "int (length ''token-1'') \<le> 68719476704"
    by simp
  have "gcm_Seal happy_env = toy_seal"
    by (simp add: happy_env_def stub_env_def)
  then have sealed: "16 \<le> length ?sealed"
    using len iv by (simp add: toy_seal_def)
  note concl = Login_protocolKey [OF start refl fin refl len iv tok refl sealed]
  have three: "length (snd (snd (Login happy_env stub_client))) = 3"
    by (simp only: conjunct2 [OF concl]) simp
  show ?thesis
    by (intro conjI start fin len iv tok sealed conjunct1 [OF concl] three)
qed

subsection \<open>Logout\<close>

text \<open>
  C2, as amended: when the logout request fails, by an error of the transport or by a
  status other than 200, \<^verbatim>\<open>Logout\<close> returns an error and leaves the client
  unchanged; its \<^verbatim>\<open>SessionId\<close> is not cleared.
\<close>

theorem Logout_failure_keeps_SessionId:
  assumes "client_Do e \<lparr>Method = ''POST'', URL = getUrl c ''/api/v1/auth/logout'',
             Header = [(''authorization'', ''Session '' @ SessionId c)]\<rparr> = None
           \<or> (\<exists>response.
                 client_Do e \<lparr>Method = ''POST'', URL = getUrl c ''/api/v1/auth/logout'',
                   Header = [(''authorization'', ''Session '' @ SessionId c)]\<rparr> = Some response
                 \<and> StatusCode response \<noteq> 200)"
  shows "(\<exists>msg. fst (Logout e c) = Inl (Error msg)) \<and> snd (Logout e c) = c"
  using assms by (auto simp add: Logout_def Let_def split: option.splits)

theorem Logout_failure_keeps_SessionId_witness:
  "client_Do offline_env \<lparr>Method = ''POST'', URL = getUrl active_client ''/api/v1/auth/logout'',
      Header = [(''authorization'', ''Session '' @ SessionId active_client)]\<rparr> = None
   \<and> (\<exists>msg. fst (Logout offline_env active_client) = Inl (Error msg))
   \<and> snd (Logout offline_env active_client) = active_client"
proof -
  have down: "client_Do offline_env
      \<lparr>Method = ''POST'', URL = getUrl active_client ''/api/v1/auth/logout'',
       Header = [(''authorization'', ''Session '' @ SessionId active_client)]\<rparr> = None"
    by (simp add: offline_env_def stub_env_def)
  note concl = Logout_failure_keeps_SessionId [OF disjI1 [OF down]]
  show ?thesis
    by (intro conjI down conjunct1 [OF concl] conjunct2 [OF concl])
qed

text \<open>
  A client that holds the session \<^verbatim>\<open>sess-1\<close> and cannot reach the server still
  holds it after \<^verbatim>\<open>Logout\<close>.
\<close>

theorem Logout_clears_SessionId_counterexample:
  "fst (Logout offline_env active_client) = Inl (Error ''logout error'')
   \<and> SessionId (snd (Logout offline_env active_client)) = ''sess-1''
   \<and> SessionId (snd (Logout offline_env active_client)) \<noteq> ''''"
  by (simp only: Logout_offline fst_conv snd_conv) (simp add: active_client_def)

subsection \<open>Further properties\<close>

text \<open>
  The comparison of line 815 decides whether the handshake goes on: with a MAC of 32
  bytes, a nonce of 16 bytes and a sealed text that holds a tag, a request goes to the
  \<^verbatim>\<open>create_session\<close> endpoint if and only if the decoded signature equals the server
  signature that the client has computed. (How long the comparison takes is outside
  this model.)
\<close>

lemma Login_create_session_iff_signature:
  assumes "authStart e c = (t1, Inr sv)"
    and "snd (authFinish e c sv (deriveKeys e c sv)) = Inr (signature, token)"
    and "length (protocolKey e (deriveKeys e c sv)) = 32"
    and "length (GenerateRandomBytes e 16) = 16"
    and "int (length token) \<le> 68719476704"
    and "16 \<le> length (gcm_Seal e (protocolKey e (deriveKeys e c sv))
                        (GenerateRandomBytes e 16) token)"
  shows "getUrl c endpointAuthCreateSession \<in> fst ` set (snd (snd (Login e c)))
         \<longleftrightarrow> signature = serverSignature (deriveKeys e c sv)"
proof (cases "signature = serverSignature (deriveKeys e c sv)")
  case True
  from createSession_sent [OF refl assms(3-5) refl assms(6), of c sv] True
  show ?thesis
    by (simp add: Login_after_start [OF assms(1,2)])
next
  case False
  then show ?thesis
    by (simp add: Login_after_start [OF assms(1,2)] createSession_mismatch getUrl_inject
          endpointAuthStart_def endpointAuthFinish_def endpointAuthCreateSession_def)
qed

text \<open>
  A number for \<^verbatim>\<open>rounds\<close>, such as \<^verbatim>\<open>29000.0\<close>, is accepted and becomes the
  integer 29000.
\<close>

lemma authStart_rounds_29000:
  assumes "http_Post e (getUrl c endpointAuthStart)
             (AuthStartRequestType (EncodeToString (RandSeq e 12)) ''user'') = Some resp"
    and "Body resp = Decoded result"
    and "result ''nonce'' = Some (JString nonce)"
    and "result ''rounds'' = Some (JNumber 29000)"
    and "result ''salt'' = Some (JString salt)"
    and "result ''transactionId'' = Some (JString tid)"
  shows "\<exists>sv. snd (authStart e c) = Inr sv \<and> rounds sv = 29000
           \<and> FormatInt (rounds sv) = ''29000''"
  by (simp add: authStart_ok [OF assms] int64_of_float64_def FormatInt_def formatBits.simps
        digitChar_def)

text \<open>
  The happy path: \<^verbatim>\<open>Login\<close> returns the session id of the stub and stores it, and a
  \<^verbatim>\<open>Logout\<close> that the server answers with status 200 clears it again.
\<close>

lemma Login_happy_path:
  "fst (Login happy_env stub_client) = Inr ''sess-1''
   \<and> SessionId (fst (snd (Login happy_env stub_client))) = ''sess-1''
   \<and> Logout happy_env (fst (snd (Login happy_env stub_client)))
       = (Inr True, stub_client)"
proof -
  let ?ks = "deriveKeys happy_env stub_client ok_start_values"
  have start: "authStart happy_env stub_client =
     ([(''http://inverter/api/v1/auth/start'', AuthStartRequestType ''YWJjZGVmZ2hpamts'' ''user'')],
      Inr ok_start_values)"
    by (simp only: happy_env_def stub_authStart)
  have sig: "serverSignature ?ks = stub_signature"
    by (simp only: happy_env_def stub_serverSignature)
  have env: "hmac_sha256 happy_env = toy_mac" "gcm_Seal happy_env = toy_seal"
    "GenerateRandomBytes happy_env 16 = ''0123456789abcdef''"
    by (simp_all add: happy_env_def stub_env_def)
  have post: "\<And>r. http_Post happy_env (getUrl stub_client endpointAuthCreateSession) r = Some ok_session"
    by (simp only: happy_env_def getUrl_stub stub_http_Post)
  have "snd (createSession happy_env stub_client ok_start_values ?ks stub_signature ''token-1'')
        = Inr ''sess-1''"
    by (simp add: createSession_def Let_def sig bytes_Compare_eq_0 protocolKey_eq env
          length_toy_mac toy_seal_def post ok_session_def assertString_def)
  then have login: "fst (Login happy_env stub_client) = Inr ''sess-1''"
     "fst (snd (Login happy_env stub_client)) = stub_client\<lparr>SessionId := ''sess-1''\<rparr>"
    by (simp_all add: Login_after_start [OF start stub_authFinish_ok])
  have "Logout happy_env (stub_client\<lparr>SessionId := ''sess-1''\<rparr>) = (Inr True, stub_client)"
    by (simp add: Logout_def Let_def happy_env_def stub_env_def stub_client_def
          NewWithParameter_def)
  with login show ?thesis by simp
qed

end
